theory Spec2Isabelle
  imports Complex_Main
begin

section \<open>Numbers, matrices and angles\<close>

text \<open>
  The source computes with Python floats and numpy complex numbers. They are modelled by
  the real and the complex numbers: every statement below is about the exact arithmetic
  that the floating-point code approximates.
\<close>

text \<open>Python's \<open>x % y\<close> on floats, for a positive divisor: the result lies in \<open>[0, y)\<close>.\<close>

definition float_mod :: "real \<Rightarrow> real \<Rightarrow> real" where
  "float_mod x y = x - y * of_int \<lfloor>x / y\<rfloor>"

text \<open>\<open>_signed_mod_1\<close>: \<open>(x + 0.5) % 1 - 0.5\<close>.\<close>

definition signed_mod_1 :: "real \<Rightarrow> real" where
  "signed_mod_1 x = float_mod (x + 0.5) 1 - 0.5"

definition is_negligible_turn :: "real \<Rightarrow> real \<Rightarrow> bool" where
  "is_negligible_turn turns tolerance \<longleftrightarrow> \<bar>signed_mod_1 turns\<bar> < tolerance"

text \<open>A 2x2 complex matrix, \<open>mij\<close> being the entry \<open>mat[i, j]\<close>.\<close>

datatype mat2 = Mat2 (m00: complex) (m01: complex) (m10: complex) (m11: complex)

text \<open>\<open>np.dot\<close> on two 2x2 matrices: the matrix product.\<close>

definition dot :: "mat2 \<Rightarrow> mat2 \<Rightarrow> mat2" where
  "dot a b = Mat2 (m00 a * m00 b + m01 a * m10 b) (m00 a * m01 b + m01 a * m11 b)
                  (m10 a * m00 b + m11 a * m10 b) (m10 a * m01 b + m11 a * m11 b)"

text \<open>\<open>np.mat(vecs).H\<close>: the conjugate transpose.\<close>

definition hermitian_conj :: "mat2 \<Rightarrow> mat2" where
  "hermitian_conj a = Mat2 (cnj (m00 a)) (cnj (m10 a)) (cnj (m01 a)) (cnj (m11 a))"

definition scale :: "complex \<Rightarrow> mat2 \<Rightarrow> mat2" where
  "scale k a = Mat2 (k * m00 a) (k * m01 a) (k * m10 a) (k * m11 a)"

definition identity2 :: mat2 where
  "identity2 = Mat2 1 0 0 1"

text \<open>\<open>_phase_matrix\<close>: \<open>diag(1, exp(1j * angle))\<close>.\<close>

definition phase_matrix :: "real \<Rightarrow> mat2" where
  "phase_matrix angle = Mat2 1 0 0 (exp (\<i> * complex_of_real angle))"

text \<open>\<open>_rotation_matrix\<close>: \<open>[[c, -s], [s, c]]\<close>.\<close>

definition rotation_matrix :: "real \<Rightarrow> mat2" where
  "rotation_matrix angle =
     (let c = cos angle; s = sin angle
      in Mat2 (complex_of_real c) (complex_of_real (- s))
              (complex_of_real s) (complex_of_real c))"

text \<open>
  \<open>math.atan2(y, x)\<close>: the angle of the point \<open>(x, y)\<close> in \<open>(-pi, pi]\<close>, and \<open>0\<close> at the
  origin (signed zeros are not modelled).
\<close>

definition atan2 :: "real \<Rightarrow> real \<Rightarrow> real" where
  "atan2 y x =
     (if 0 < x then arctan (y / x)
      else if x < 0 then (if 0 \<le> y then arctan (y / x) + pi else arctan (y / x) - pi)
      else if 0 < y then pi / 2
      else if y < 0 then - (pi / 2)
      else 0)"

text \<open>\<open>cmath.phase(z)\<close> is \<open>math.atan2(z.imag, z.real)\<close>.\<close>

definition phase :: "complex \<Rightarrow> real" where
  "phase z = atan2 (Im z) (Re z)"

section \<open>Single-qubit decomposition\<close>

text \<open>\<open>_deconstruct_single_qubit_matrix_into_angles\<close>, one binding per assignment.\<close>

definition deconstruct_single_qubit_matrix_into_angles :: "mat2 \<Rightarrow> real \<times> real \<times> real" where
  "deconstruct_single_qubit_matrix_into_angles mat =
     (let right_phase = phase (m01 mat * cnj (m00 mat)) + pi;
          mat1 = dot mat (phase_matrix (- right_phase));
          bottom_phase = phase (m10 mat1 * cnj (m00 mat1));
          mat2 = dot (phase_matrix (- bottom_phase)) mat1;
          rotation = atan2 (cmod (m10 mat2)) (cmod (m00 mat2));
          mat3 = dot (rotation_matrix (- rotation)) mat2;
          diagonal_phase = phase (m11 mat3 * cnj (m00 mat3))
      in (right_phase + diagonal_phase, rotation, bottom_phase))"

text \<open>\<open>_deconstruct_single_qubit_matrix_into_gate_turns\<close>.\<close>

definition deconstruct_single_qubit_matrix_into_gate_turns :: "mat2 \<Rightarrow> real \<times> real \<times> real" where
  "deconstruct_single_qubit_matrix_into_gate_turns mat =
     (case deconstruct_single_qubit_matrix_into_angles mat of
        (pre_phase, rotation, post_phase) \<Rightarrow>
          (let tau = 2 * pi;
               xy_turn = 2 * rotation / tau;
               xy_phase_turn = 0.25 - pre_phase / tau;
               total_z_turn = (post_phase + pre_phase) / tau
           in (signed_mod_1 xy_turn, signed_mod_1 xy_phase_turn, signed_mod_1 total_z_turn)))"

section \<open>Gates and operations\<close>

text \<open>
  The gate classes live in the \<open>ops\<close> package, which is outside the source file. Gates are
  kept symbolic: \<open>XYGate turns axis_phase_turns\<close> and \<open>ZGate turns\<close> record the constructor
  arguments as passed; \<open>ops_X\<close>, \<open>ops_Y\<close>, \<open>ops_Z\<close>, \<open>ops_CZ\<close> are the named gates
  \<open>ops.X\<close>, \<open>ops.Y\<close>, \<open>ops.Z\<close>, \<open>ops.CZ\<close>; \<open>GatePow g e\<close> is \<open>g**e\<close> and \<open>Inverse g\<close> is
  \<open>g.inverse()\<close>.
\<close>

datatype gate =
    XYGate (turns: real) (axis_phase_turns: real)
  | ZGate real
  | ops_X
  | ops_Y
  | ops_Z
  | ops_CZ
  | GatePow gate real
  | Inverse gate

text \<open>\<open>isinstance(g, ops.ZGate)\<close>.\<close>

fun is_ZGate :: "gate \<Rightarrow> bool" where
  "is_ZGate (ZGate t) = True"
| "is_ZGate g = False"

text \<open>An operation is a gate bound to qubits: \<open>gate(q)\<close>, \<open>gate.on(q0, q1)\<close>.\<close>

datatype 'q operation = Operation gate "'q list"

text \<open>An operation tree: an operation, or a sequence (list, tuple, generator) of trees.\<close>

datatype 'q op_tree = OpLeaf "'q operation" | OpNode "'q op_tree list"

text \<open>
  Modelled from the spec: \<open>ops.flatten_op_tree\<close> is not in the source file; it is "simply
  recursive sequence concatenation".
\<close>

fun flatten_op_tree :: "'q op_tree \<Rightarrow> 'q operation list" where
  "flatten_op_tree (OpLeaf x) = [x]"
| "flatten_op_tree (OpNode ts) = concat (map flatten_op_tree ts)"

text \<open>
  Modelled from the spec: \<open>ops.inverse_of_invertable_op_tree\<close> is not in the source file;
  it gives "the exact operation-by-operation inverse, in reverse order".
\<close>

fun inverse_of_invertable_op_tree :: "'q op_tree \<Rightarrow> 'q op_tree" where
  "inverse_of_invertable_op_tree (OpLeaf (Operation g qs)) = OpLeaf (Operation (Inverse g) qs)"
| "inverse_of_invertable_op_tree (OpNode ts) =
     OpNode (rev (map inverse_of_invertable_op_tree ts))"

section \<open>Single-qubit synthesis\<close>

text \<open>
  \<open>single_qubit_matrix_to_native_gates\<close>. The method \<open>trace_distance_bound\<close> of the gate
  classes is outside the source file and is the parameter \<open>tdb\<close>.
\<close>

definition single_qubit_matrix_to_native_gates ::
    "(gate \<Rightarrow> real) \<Rightarrow> mat2 \<Rightarrow> real \<Rightarrow> gate list" where
  "single_qubit_matrix_to_native_gates tdb mat tolerance =
     (case deconstruct_single_qubit_matrix_into_gate_turns mat of
        (xy_turn, xy_phase_turn, total_z_turn) \<Rightarrow>
          (let result = [XYGate xy_turn xy_phase_turn, ZGate total_z_turn];
               result' = filter (\<lambda>g. tdb g > tolerance) result
           in if length result' = 2 \<and> \<bar>xy_turn\<bar> \<ge> 0.5 - tolerance
              then [XYGate 0.5 (xy_phase_turn + total_z_turn / 2)]
              else result'))"

text \<open>
  An instance of the parameter \<open>tdb\<close> for concrete runs: a bound proportional to the size
  of the rotation, nonnegative, and zero on a gate of zero turns (which does nothing).
\<close>

fun sample_bound :: "gate \<Rightarrow> real" where
  "sample_bound (XYGate t a) = \<bar>t\<bar> * 3.5"
| "sample_bound (ZGate t) = \<bar>t\<bar> * 3.5"
| "sample_bound g = 1"

section \<open>Controlled operations\<close>

text \<open>
  \<open>single_qubit_op_to_framed_phase_form\<close>. The eigendecomposition \<open>np.linalg.eig\<close> is the
  parameter \<open>eig\<close>, returning the pair of eigenvalues and the matrix of eigenvectors.
  numpy's complex division does not raise; the theorems below assume a nonzero first
  eigenvalue wherever the quotient matters.
\<close>

definition single_qubit_op_to_framed_phase_form ::
    "(mat2 \<Rightarrow> (complex \<times> complex) \<times> mat2) \<Rightarrow> mat2 \<Rightarrow> mat2 \<times> complex \<times> complex" where
  "single_qubit_op_to_framed_phase_form eig mat =
     (case eig mat of
        (vals, vecs) \<Rightarrow>
          (let u = hermitian_conj vecs;
               r = snd vals / fst vals;
               g = fst vals
           in (u, r, g)))"

datatype py_error = IndexError

text \<open>\<open>xs[-1]\<close> and \<open>del xs[-1]\<close>: both raise \<open>IndexError\<close> on an empty list.\<close>

definition index_last :: "'a list \<Rightarrow> py_error + 'a" where
  "index_last xs = (if xs = [] then Inl IndexError else Inr (last xs))"

definition del_last :: "'a list \<Rightarrow> py_error + 'a list" where
  "del_last xs = (if xs = [] then Inl IndexError else Inr (butlast xs))"

text \<open>
  The statement \<open>if u_gates and isinstance(u_gates[-1], ops.ZGate): del u_gates[-1]\<close>,
  with Python's short-circuit \<open>and\<close>: an empty list is false, and then it is not indexed.
\<close>

definition drop_commuting_border :: "gate list \<Rightarrow> py_error + gate list" where
  "drop_commuting_border u_gates =
     (if u_gates \<noteq> [] then
        (case index_last u_gates of
           Inl e \<Rightarrow> Inl e
         | Inr g \<Rightarrow> if is_ZGate g then del_last u_gates else Inr u_gates)
      else Inr u_gates)"

text \<open>\<open>controlled_op_to_native_gates\<close>.\<close>

definition controlled_op_to_native_gates ::
    "(gate \<Rightarrow> real) \<Rightarrow> (mat2 \<Rightarrow> (complex \<times> complex) \<times> mat2) \<Rightarrow> 'q \<Rightarrow> 'q \<Rightarrow> mat2 \<Rightarrow> real
      \<Rightarrow> py_error + 'q operation list" where
  "controlled_op_to_native_gates tdb eig control target operation tolerance =
     (case single_qubit_op_to_framed_phase_form eig operation of
        (u, z_phase, global_phase) \<Rightarrow>
          if cmod (z_phase - 1) \<le> tolerance then Inr []
          else
            (case drop_commuting_border (single_qubit_matrix_to_native_gates tdb u tolerance) of
               Inl e \<Rightarrow> Inl e
             | Inr u_gates \<Rightarrow>
                 (let ops_before = OpNode (map (\<lambda>gate. OpLeaf (Operation gate [target])) u_gates);
                      ops_after = inverse_of_invertable_op_tree ops_before;
                      effect = Operation (GatePow ops_CZ (phase z_phase / pi)) [control, target];
                      kickback = Operation (GatePow ops_Z (phase global_phase / pi)) [control]
                  in Inr (flatten_op_tree
                       (OpNode [ops_before, OpLeaf effect,
                                if cmod (global_phase - 1) > tolerance
                                then OpLeaf kickback else OpNode [],
                                ops_after])))))"

section \<open>Two-qubit operations\<close>

text \<open>
  The generator \<open>parity_interaction\<close> of \<open>two_qubit_matrix_to_native_gates\<close>: it yields
  pairs (tuples) and single operations, so its output is a tree.
\<close>

definition parity_interaction :: "'q \<Rightarrow> 'q \<Rightarrow> real \<Rightarrow> real \<Rightarrow> gate option \<Rightarrow> 'q op_tree" where
  "parity_interaction q0 q1 tolerance rads op =
     (if \<bar>rads\<bar> < tolerance then OpNode []
      else
        (let e = rads * 4 / pi;
             h = - e / 2
         in OpNode
              ((case op of
                  Some g \<Rightarrow> [OpNode [OpLeaf (Operation g [q0]), OpLeaf (Operation g [q1])]]
                | None \<Rightarrow> [])
               @ [OpLeaf (Operation (GatePow ops_CZ e) [q0, q1]),
                  OpLeaf (Operation (GatePow ops_Z h) [q0]),
                  OpLeaf (Operation (GatePow ops_Z h) [q1])]
               @ (case op of
                    Some g \<Rightarrow> [OpNode [OpLeaf (Operation (Inverse g) [q0]),
                                       OpLeaf (Operation (Inverse g) [q1])]]
                  | None \<Rightarrow> []))))"

text \<open>The generator \<open>do_single_on\<close>.\<close>

definition do_single_on :: "(gate \<Rightarrow> real) \<Rightarrow> real \<Rightarrow> mat2 \<Rightarrow> 'q \<Rightarrow> 'q op_tree" where
  "do_single_on tdb tolerance u q =
     OpNode (map (\<lambda>gate. OpLeaf (Operation gate [q]))
               (single_qubit_matrix_to_native_gates tdb u tolerance))"

text \<open>
  \<open>two_qubit_matrix_to_native_gates\<close>. The decomposition \<open>linalg.kak_decomposition\<close> is the
  parameter \<open>kak\<close>; the 4x4 matrix is only handed to it, so its type \<open>'m\<close> is left open.
\<close>

type_synonym kak_result =
  "complex \<times> (mat2 \<times> mat2) \<times> (real \<times> real \<times> real) \<times> (mat2 \<times> mat2)"

definition two_qubit_matrix_to_native_gates ::
    "(gate \<Rightarrow> real) \<Rightarrow> ('m \<Rightarrow> real \<Rightarrow> kak_result) \<Rightarrow> 'q \<Rightarrow> 'q \<Rightarrow> 'm \<Rightarrow> real
      \<Rightarrow> 'q operation list" where
  "two_qubit_matrix_to_native_gates tdb kak q0 q1 mat tolerance =
     (case kak mat tolerance of
        (_, (a1, a0), (x, y, z), (b1, b0)) \<Rightarrow>
          (let pre = OpNode [do_single_on tdb tolerance b1 q1, do_single_on tdb tolerance b0 q0];
               post = OpNode [do_single_on tdb tolerance a1 q1, do_single_on tdb tolerance a0 q0];
               xx_part = parity_interaction q0 q1 tolerance x (Some (GatePow ops_Y (- 0.5)));
               yy_part = parity_interaction q0 q1 tolerance y (Some (GatePow ops_X 0.5));
               zz_part = parity_interaction q0 q1 tolerance z None
           in flatten_op_tree (OpNode [pre, xx_part, yy_part, zz_part, post])))"

subsection \<open>The two-qubit sequence as the specification words it\<close>

text \<open>
  The specification's \<open>parity_interaction\<close>, as a flat sequence: nothing when
  \<open>|rads| < tolerance\<close>; otherwise the framing gate on both qubits (if given), the coupling
  gate to the power \<open>4 rads / pi\<close> on \<open>(q0, q1)\<close>, the phase gate to the power
  \<open>- 2 rads / pi\<close> on \<open>q0\<close> and on \<open>q1\<close>, then the framing gate's inverse on both
  qubits (if given).
\<close>

definition spec_parity_interaction ::
    "'q \<Rightarrow> 'q \<Rightarrow> real \<Rightarrow> real \<Rightarrow> gate option \<Rightarrow> 'q operation list" where
  "spec_parity_interaction q0 q1 tolerance rads framing =
     (if \<bar>rads\<bar> < tolerance then []
      else
        (case framing of Some f \<Rightarrow> [Operation f [q0], Operation f [q1]] | None \<Rightarrow> [])
        @ [Operation (GatePow ops_CZ (4 * rads / pi)) [q0, q1],
           Operation (GatePow ops_Z (- 2 * rads / pi)) [q0],
           Operation (GatePow ops_Z (- 2 * rads / pi)) [q1]]
        @ (case framing of
             Some f \<Rightarrow> [Operation (Inverse f) [q0], Operation (Inverse f) [q1]]
           | None \<Rightarrow> []))"

text \<open>The specification's single-qubit synthesis of \<open>u\<close> on the qubit \<open>q\<close>.\<close>

definition spec_synthesis_on :: "(gate \<Rightarrow> real) \<Rightarrow> real \<Rightarrow> mat2 \<Rightarrow> 'q \<Rightarrow> 'q operation list" where
  "spec_synthesis_on tdb tolerance u q =
     map (\<lambda>g. Operation g [q]) (single_qubit_matrix_to_native_gates tdb u tolerance)"

section \<open>What a gate sequence does\<close>

text \<open>A matrix is unitary when its products with its conjugate transpose are the identity.\<close>

definition is_unitary :: "mat2 \<Rightarrow> bool" where
  "is_unitary a \<longleftrightarrow>
     dot a (hermitian_conj a) = identity2 \<and> dot (hermitian_conj a) a = identity2"

text \<open>Equality up to a global phase: up to a scalar factor of magnitude one.\<close>

definition equal_up_to_global_phase :: "mat2 \<Rightarrow> mat2 \<Rightarrow> bool" where
  "equal_up_to_global_phase a b \<longleftrightarrow> (\<exists>k. cmod k = 1 \<and> a = scale k b)"

text \<open>
  Modelled from the spec: the \<open>matrix\<close> methods of the gate classes are not in the source
  file. The axis rotation gate \<open>XYGate(turns, axis_phase_turns)\<close> rotates by \<open>turns\<close> of a
  whole turn about the axis of the XY plane at the angle \<open>axis_phase_turns\<close> (in turns) from
  X, that is \<open>cos(pi t) I - i sin(pi t) (cos(2 pi a) X + sin(2 pi a) Y)\<close>; the phase gate
  \<open>ZGate(turns)\<close> phases by \<open>turns\<close> of a whole turn around Z, the \<open>_phase_matrix\<close> of the
  angle \<open>2 pi turns\<close>. The other gates are not single-qubit native gates and get no matrix
  here.
\<close>

definition xy_gate_matrix :: "real \<Rightarrow> real \<Rightarrow> mat2" where
  "xy_gate_matrix t a =
     Mat2 (complex_of_real (cos (pi * t)))
          (- \<i> * complex_of_real (sin (pi * t)) * cis (- (2 * pi * a)))
          (- \<i> * complex_of_real (sin (pi * t)) * cis (2 * pi * a))
          (complex_of_real (cos (pi * t)))"

fun gate_matrix :: "gate \<Rightarrow> mat2 option" where
  "gate_matrix (XYGate t a) = Some (xy_gate_matrix t a)"
| "gate_matrix (ZGate t) = Some (phase_matrix (2 * pi * t))"
| "gate_matrix g = None"

text \<open>
  The matrix of a gate list applied in order, the first gate first: each later gate
  multiplies from the left.
\<close>

fun sequence_matrix :: "gate list \<Rightarrow> mat2 option" where
  "sequence_matrix [] = Some identity2"
| "sequence_matrix (g # gs) =
     (case gate_matrix g of
        None \<Rightarrow> None
      | Some m \<Rightarrow> (case sequence_matrix gs of None \<Rightarrow> None | Some r \<Rightarrow> Some (dot r m)))"

text \<open>
  Modelled from the spec: \<open>trace_distance_bound()\<close> is "a nonnegative real upper bound on
  the operator distance" the gate introduces; so a gate whose bound is not positive does
  nothing, up to a global phase.
\<close>

definition bound_is_sound :: "(gate \<Rightarrow> real) \<Rightarrow> bool" where
  "bound_is_sound tdb \<longleftrightarrow>
     (\<forall>g m. tdb g \<le> 0 \<and> gate_matrix g = Some m \<longrightarrow> equal_up_to_global_phase m identity2)"

text \<open>
  Modelled from the spec: the "sign/mod-1 convention" for the parameters of an axis
  rotation. Turns and axis phase count modulo \<open>1\<close>, and reversing the axis (half a turn
  more of axis phase) while negating the turns describes the same rotation.
\<close>

definition xy_params_equivalent :: "real \<Rightarrow> real \<Rightarrow> real \<Rightarrow> real \<Rightarrow> bool" where
  "xy_params_equivalent t a t' a' \<longleftrightarrow>
     (signed_mod_1 (t' - t) = 0 \<and> signed_mod_1 (a' - a) = 0)
     \<or> (signed_mod_1 (t' + t) = 0 \<and> signed_mod_1 (a' - a - 1 / 2) = 0)"

section \<open>Concrete inputs\<close>

text \<open>The bit flip \<open>[[0, 1], [1, 0]]\<close>.\<close>

definition pauli_x :: mat2 where
  "pauli_x = Mat2 0 1 1 0"

text \<open>
  An instance of the parameter \<open>eig\<close> for concrete runs: a routine whose answer is the
  given eigendecomposition.
\<close>

definition eig_returning :: "(complex \<times> complex) \<times> mat2 \<Rightarrow> mat2 \<Rightarrow> (complex \<times> complex) \<times> mat2" where
  "eig_returning r m = r"

text \<open>
  An instance of the parameter \<open>kak\<close> for concrete runs: a routine whose answer is the
  given decomposition.
\<close>

definition kak_returning :: "kak_result \<Rightarrow> unit \<Rightarrow> real \<Rightarrow> kak_result" where
  "kak_returning r m tolerance = r"

text \<open>
  The matrix \<open>Y = [[0, -1j], [1j, 0]]\<close>, its normalised eigenvectors as columns (for the
  eigenvalues \<open>1\<close> and \<open>-1\<close>), and their conjugate transpose.
\<close>

definition pauli_y :: mat2 where
  "pauli_y = Mat2 0 (- \<i>) \<i> 0"

definition y_eigenvectors :: mat2 where
  "y_eigenvectors = Mat2 (complex_of_real (sqrt 2 / 2)) (complex_of_real (sqrt 2 / 2))
                         (\<i> * complex_of_real (sqrt 2 / 2)) (- \<i> * complex_of_real (sqrt 2 / 2))"

definition y_frame :: mat2 where
  "y_frame = Mat2 (complex_of_real (sqrt 2 / 2)) (- \<i> * complex_of_real (sqrt 2 / 2))
                  (complex_of_real (sqrt 2 / 2)) (\<i> * complex_of_real (sqrt 2 / 2))"

section \<open>Properties of the canonicalisation\<close>

lemma signed_mod_1_frac: "signed_mod_1 x = frac (x + 1 / 2) - 1 / 2"
  by (simp add: signed_mod_1_def float_mod_def frac_def)

lemma signed_mod_1_range: "- (1 / 2) \<le> signed_mod_1 x \<and> signed_mod_1 x < 1 / 2"
  using frac_ge_0 [of "x + 1 / 2"] frac_lt_1 [of "x + 1 / 2"]
  by (simp add: signed_mod_1_frac)

text \<open>
  C7. \<open>_signed_mod_1\<close> is idempotent, and its result always lies in the half-open interval
  from \<open>-0.5\<close> (included) to \<open>0.5\<close> (excluded), for every real \<open>x\<close>.
\<close>

theorem signed_mod_1_idempotent_in_range:
  "signed_mod_1 (signed_mod_1 x) = signed_mod_1 x
   \<and> - 0.5 \<le> signed_mod_1 x \<and> signed_mod_1 x < 0.5"
  using signed_mod_1_range [of x] by (simp add: signed_mod_1_frac)


section \<open>Evaluating the decomposition\<close>

lemma exp_i_real: "exp (\<i> * complex_of_real a) = cis a"
  by (simp add: cis_conv_exp)

lemma phase_matrix_cis: "phase_matrix a = Mat2 1 0 0 (cis a)"
  by (simp add: phase_matrix_def exp_i_real)

lemma cis_minus_pi: "cis (- pi) = - 1"
  by (simp add: complex_eq_iff)

lemma atan2_0_0: "atan2 0 0 = 0"
  by (simp add: atan2_def)

lemma atan2_pos_0: "0 < y \<Longrightarrow> atan2 y 0 = pi / 2"
  by (simp add: atan2_def)

lemma atan2_0_pos: "0 < x \<Longrightarrow> atan2 0 x = 0"
  by (simp add: atan2_def)

lemma atan2_0_neg: "x < 0 \<Longrightarrow> atan2 0 x = pi"
  by (simp add: atan2_def)

lemma phase_0: "phase 0 = 0"
  by (simp add: phase_def atan2_def)

lemma phase_1: "phase 1 = 0"
  by (simp add: phase_def atan2_def)

lemma phase_m1: "phase (- 1) = pi"
  by (simp add: phase_def atan2_def)

lemma phase_i: "phase \<i> = pi / 2"
  by (simp add: phase_def atan2_def)

lemma phase_mi: "phase (- \<i>) = - (pi / 2)"
  by (simp add: phase_def atan2_def)

lemmas eval_simps =
  deconstruct_single_qubit_matrix_into_angles_def Let_def phase_matrix_cis
  rotation_matrix_def dot_def cis_minus_pi atan2_0_0 atan2_pos_0 atan2_0_pos atan2_0_neg
  phase_0 phase_1 phase_m1 phase_i phase_mi

lemmas turns_simps =
  deconstruct_single_qubit_matrix_into_gate_turns_def Let_def signed_mod_1_def float_mod_def

lemma angles_pauli_x:
  "deconstruct_single_qubit_matrix_into_angles pauli_x = (pi, pi / 2, 0)"
  by (simp add: eval_simps pauli_x_def)

lemma turns_pauli_x:
  "deconstruct_single_qubit_matrix_into_gate_turns pauli_x = (- (1 / 2), - (1 / 4), - (1 / 2))"
  by (simp add: turns_simps angles_pauli_x)

lemma angles_identity:
  "deconstruct_single_qubit_matrix_into_angles identity2 = (2 * pi, 0, 0)"
  by (simp add: eval_simps identity2_def)

lemma turns_identity:
  "deconstruct_single_qubit_matrix_into_gate_turns identity2 = (0, 1 / 4, 0)"
  by (simp add: turns_simps angles_identity)

lemma angles_anti_diag_i:
  "deconstruct_single_qubit_matrix_into_angles (Mat2 0 \<i> 1 0) = (3 * pi / 2, pi / 2, 0)"
  by (simp add: eval_simps)

lemma turns_anti_diag_i:
  "deconstruct_single_qubit_matrix_into_gate_turns (Mat2 0 \<i> 1 0)
     = (- (1 / 2), - (1 / 2), - (1 / 4))"
  by (simp add: turns_simps angles_anti_diag_i)



lemma angles_anti_diag_minus:
  "deconstruct_single_qubit_matrix_into_angles (Mat2 0 (- 1) 1 0) = (2 * pi, pi / 2, 0)"
  by (simp add: eval_simps)

lemma turns_anti_diag_minus:
  "deconstruct_single_qubit_matrix_into_gate_turns (Mat2 0 (- 1) 1 0) = (- (1 / 2), 1 / 4, 0)"
  by (simp add: turns_simps angles_anti_diag_minus)

section \<open>The tolerance filter and the half-turn absorption\<close>

lemma gate_turns_range:
  assumes "deconstruct_single_qubit_matrix_into_gate_turns mat = (t, a, z)"
  shows "- (1 / 2) \<le> t \<and> t < 1 / 2 \<and> - (1 / 2) \<le> a \<and> a < 1 / 2 \<and> - (1 / 2) \<le> z \<and> z < 1 / 2"
  using assms signed_mod_1_range
  by (auto simp: deconstruct_single_qubit_matrix_into_gate_turns_def Let_def split: prod.splits)

lemma single_qubit_unfold:
  assumes "deconstruct_single_qubit_matrix_into_gate_turns mat = (t, a, z)"
  shows "single_qubit_matrix_to_native_gates tdb mat tol =
    (if tol < tdb (XYGate t a) \<and> tol < tdb (ZGate z) \<and> 1 / 2 - tol \<le> \<bar>t\<bar>
     then [XYGate (1 / 2) (a + z / 2)]
     else filter (\<lambda>g. tol < tdb g) [XYGate t a, ZGate z])"
  using assms by (simp add: single_qubit_matrix_to_native_gates_def Let_def)

lemma framed_unfold:
  assumes "eig operation = ((v0, v1), vecs)"
  shows "single_qubit_op_to_framed_phase_form eig operation = (hermitian_conj vecs, v1 / v0, v0)"
  using assms by (simp add: single_qubit_op_to_framed_phase_form_def Let_def)

text \<open>
  C4. With \<open>survivors\<close> the candidate gates that pass the tolerance filter: if exactly two
  gates survive and \<open>|xy_turn| \<ge> 0.5 - tolerance\<close>, the result is the single gate
  \<open>XYGate(turns=0.5, axis_phase_turns=xy_phase_turn + total_z_turn / 2)\<close>. The test comes
  after the filter: when the phase gate is elided (its bound does not exceed the tolerance),
  the result is the filtered list as it is and holds no half-turn \<open>XYGate\<close>, however close
  to a half turn the rotation is.
\<close>

theorem half_turn_absorption_after_filter:
  assumes "deconstruct_single_qubit_matrix_into_gate_turns mat
             = (xy_turn, xy_phase_turn, total_z_turn)"
    and "survivors
           = filter (\<lambda>g. tdb g > tolerance) [XYGate xy_turn xy_phase_turn, ZGate total_z_turn]"
  shows "(length survivors = 2 \<and> \<bar>xy_turn\<bar> \<ge> 0.5 - tolerance \<longrightarrow>
            single_qubit_matrix_to_native_gates tdb mat tolerance
              = [XYGate 0.5 (xy_phase_turn + total_z_turn / 2)])
       \<and> (tdb (ZGate total_z_turn) \<le> tolerance \<longrightarrow>
            single_qubit_matrix_to_native_gates tdb mat tolerance = survivors
            \<and> (\<forall>p. XYGate 0.5 p \<notin> set (single_qubit_matrix_to_native_gates tdb mat tolerance)))"
  using assms gate_turns_range [OF assms(1)]
  by (auto simp: single_qubit_unfold [OF assms(1)])

text \<open>
  The bit flip at tolerance \<open>1e-8\<close>: both candidates survive and the absorption fires. The
  matrix \<open>[[0, -1], [1, 0]]\<close>: a half turn whose phase gate is elided; no replacement.
\<close>

theorem half_turn_absorption_after_filter_witness:
  "deconstruct_single_qubit_matrix_into_gate_turns pauli_x = (- (1 / 2), - (1 / 4), - (1 / 2))
   \<and> length (filter (\<lambda>g. sample_bound g > 1 / 10 ^ 8)
               [XYGate (- (1 / 2)) (- (1 / 4)), ZGate (- (1 / 2))]) = 2
   \<and> \<bar>- (1 / 2) :: real\<bar> \<ge> 0.5 - 1 / 10 ^ 8
   \<and> single_qubit_matrix_to_native_gates sample_bound pauli_x (1 / 10 ^ 8)
       = [XYGate 0.5 (- (1 / 2))]
   \<and> deconstruct_single_qubit_matrix_into_gate_turns (Mat2 0 (- 1) 1 0) = (- (1 / 2), 1 / 4, 0)
   \<and> sample_bound (ZGate 0) \<le> 1 / 10 ^ 8
   \<and> single_qubit_matrix_to_native_gates sample_bound (Mat2 0 (- 1) 1 0) (1 / 10 ^ 8)
       = [XYGate (- (1 / 2)) (1 / 4)]"
  using half_turn_absorption_after_filter
      [OF turns_pauli_x refl, where tdb = sample_bound and tolerance = "1 / 10 ^ 8"]
    half_turn_absorption_after_filter
      [OF turns_anti_diag_minus refl, where tdb = sample_bound and tolerance = "1 / 10 ^ 8"]
  by (simp add: turns_pauli_x turns_anti_diag_minus)

text \<open>
  C5, as the code has it. In \<open>single_qubit_matrix_to_native_gates\<close> a candidate gate
  whose \<open>trace_distance_bound()\<close> equals the tolerance is dropped (the filter keeps a gate
  only when its bound is strictly greater than the tolerance); in
  \<open>controlled_op_to_native_gates\<close> an operation with \<open>|z_phase - 1|\<close> equal to the tolerance
  is treated as the identity and the empty sequence is returned.
\<close>

theorem tolerance_boundaries:
  assumes "deconstruct_single_qubit_matrix_into_gate_turns mat
             = (xy_turn, xy_phase_turn, total_z_turn)"
    and "eig operation = ((v0, v1), vecs)" and "v0 \<noteq> 0"
  shows "(tdb (XYGate xy_turn xy_phase_turn) = tolerance \<longrightarrow>
            single_qubit_matrix_to_native_gates tdb mat tolerance
              = filter (\<lambda>g. tdb g > tolerance) [ZGate total_z_turn])
       \<and> (tdb (ZGate total_z_turn) = tolerance \<longrightarrow>
            single_qubit_matrix_to_native_gates tdb mat tolerance
              = filter (\<lambda>g. tdb g > tolerance) [XYGate xy_turn xy_phase_turn])
       \<and> (cmod (v1 / v0 - 1) = tolerance \<longrightarrow>
            controlled_op_to_native_gates tdb eig control target operation tolerance = Inr [])"
  using assms(3)
  by (auto simp: single_qubit_unfold [OF assms(1)] controlled_op_to_native_gates_def
      framed_unfold [of eig operation, OF assms(2)])

theorem tolerance_boundaries_witness:
  "deconstruct_single_qubit_matrix_into_gate_turns identity2 = (0, 1 / 4, 0)
   \<and> sample_bound (XYGate 0 (1 / 4)) = 0 \<and> sample_bound (ZGate 0) = 0
   \<and> single_qubit_matrix_to_native_gates sample_bound identity2 0 = []
   \<and> cmod (\<i> / 1 - 1) = sqrt 2
   \<and> controlled_op_to_native_gates sample_bound (eig_returning ((1, \<i>), identity2))
        (0 :: nat) 1 (Mat2 1 0 0 \<i>) (sqrt 2) = Inr []"
  using tolerance_boundaries [OF turns_identity,
      where eig = "eig_returning ((1, \<i>), identity2)"
      and operation = "Mat2 1 0 0 \<i>" and ?v0.0 = 1 and ?v1.0 = \<i> and vecs = identity2
      and tdb = sample_bound and tolerance = 0 and control = "0 :: nat" and target = 1]
    tolerance_boundaries [OF turns_identity,
      where eig = "eig_returning ((1, \<i>), identity2)"
      and operation = "Mat2 1 0 0 \<i>" and ?v0.0 = 1 and ?v1.0 = \<i> and vecs = identity2
      and tdb = sample_bound and tolerance = "sqrt 2" and control = "0 :: nat" and target = 1]
  by (simp add: turns_identity eig_returning_def cmod_def)

text \<open>
  The claim as worded (a gate whose bound equals the tolerance is kept) fails on the
  identity matrix with tolerance \<open>0\<close>: both candidate gates have zero turns and the bound
  \<open>0\<close>, equal to the tolerance, and neither is in the result.
\<close>

theorem boundary_gate_dropped:
  "deconstruct_single_qubit_matrix_into_gate_turns identity2 = (0, 1 / 4, 0)
   \<and> sample_bound (XYGate 0 (1 / 4)) = 0
   \<and> sample_bound (ZGate 0) = 0
   \<and> single_qubit_matrix_to_native_gates sample_bound identity2 0 = []"
  by (simp add: turns_identity single_qubit_unfold [OF turns_identity])





text \<open>
  C9. On the half-turn absorption path the value passed as \<open>axis_phase_turns\<close> is the
  sum \<open>xy_phase_turn + total_z_turn / 2\<close>, not canonicalised again: on
  \<open>[[0, 1j], [1, 0]]\<close> the path fires and the returned gate carries \<open>-0.625\<close>, outside
  \<open>[-0.5, 0.5)\<close>; the sum always lies in \<open>[-0.75, 0.75)\<close>.
\<close>

theorem absorbed_axis_phase_not_canonical:
  assumes "0 \<le> tolerance"
    and "tolerance < tdb (XYGate (- (1 / 2)) (- (1 / 2)))"
    and "tolerance < tdb (ZGate (- (1 / 4)))"
  shows "deconstruct_single_qubit_matrix_into_gate_turns (Mat2 0 \<i> 1 0)
           = (- (1 / 2), - (1 / 2), - (1 / 4))
       \<and> single_qubit_matrix_to_native_gates tdb (Mat2 0 \<i> 1 0) tolerance
           = [XYGate 0.5 (- 0.625)]
       \<and> \<not> (- 0.5 \<le> (- 0.625 :: real))
       \<and> (\<forall>mat t a z. deconstruct_single_qubit_matrix_into_gate_turns mat = (t, a, z)
             \<longrightarrow> - 0.75 \<le> a + z / 2 \<and> a + z / 2 < 0.75)"
proof -
  have "\<And>mat t a z. deconstruct_single_qubit_matrix_into_gate_turns mat = (t, a, z)
          \<Longrightarrow> - 0.75 \<le> a + z / 2 \<and> a + z / 2 < 0.75"
    using gate_turns_range by fastforce
  then show ?thesis
    using assms by (simp add: turns_anti_diag_i single_qubit_unfold [OF turns_anti_diag_i])
qed

theorem absorbed_axis_phase_not_canonical_witness:
  "(0 :: real) \<le> 0 \<and> 0 < sample_bound (XYGate (- (1 / 2)) (- (1 / 2)))
   \<and> 0 < sample_bound (ZGate (- (1 / 4)))
   \<and> single_qubit_matrix_to_native_gates sample_bound (Mat2 0 \<i> 1 0) 0 = [XYGate 0.5 (- 0.625)]"
  using absorbed_axis_phase_not_canonical [where tdb = sample_bound and tolerance = 0]
  by simp

section \<open>Operation sequences\<close>

lemma flatten_leaves: "flatten_op_tree (OpNode (map (\<lambda>g. OpLeaf (f g)) xs)) = map f xs"
  by (induction xs) simp_all

lemma flatten_four:
  "flatten_op_tree (OpNode [a, b, c, d])
     = flatten_op_tree a @ flatten_op_tree b @ flatten_op_tree c @ flatten_op_tree d"
  by simp

lemma flatten_leaf: "flatten_op_tree (OpLeaf x) = [x]"
  by simp

lemma flatten_empty: "flatten_op_tree (OpNode []) = []"
  by simp

lemma flatten_do_single_on:
  "flatten_op_tree (do_single_on tdb tolerance u q) = spec_synthesis_on tdb tolerance u q"
  by (simp add: do_single_on_def spec_synthesis_on_def flatten_leaves del: flatten_op_tree.simps)

lemma flatten_parity_interaction:
  "flatten_op_tree (parity_interaction q0 q1 tolerance rads op)
     = spec_parity_interaction q0 q1 tolerance rads op"
  by (cases op) (simp_all add: parity_interaction_def spec_parity_interaction_def Let_def)

lemma inverse_leaves:
  "flatten_op_tree (inverse_of_invertable_op_tree (OpNode (map (\<lambda>g. OpLeaf (Operation g qs)) xs)))
     = rev (map (\<lambda>g. Operation (Inverse g) qs) xs)"
  by (induction xs) simp_all

lemma drop_commuting_border_eq:
  "drop_commuting_border u_gates
     = Inr (if u_gates \<noteq> [] \<and> is_ZGate (last u_gates) then butlast u_gates else u_gates)"
  by (simp add: drop_commuting_border_def index_last_def del_last_def)

lemma synth_identity_small:
  "0 \<le> tol \<Longrightarrow> single_qubit_matrix_to_native_gates sample_bound identity2 tol = []"
  by (simp add: single_qubit_unfold [OF turns_identity])

lemma synth_pauli_x_small:
  "0 \<le> tol \<Longrightarrow> tol < 1 \<Longrightarrow>
   single_qubit_matrix_to_native_gates sample_bound pauli_x tol = [XYGate (1 / 2) (- (1 / 2))]"
  by (simp add: single_qubit_unfold [OF turns_pauli_x])

lemma y_frame_eq: "hermitian_conj y_eigenvectors = y_frame"
  by (simp add: hermitian_conj_def y_eigenvectors_def y_frame_def)

lemma atan2_diag: "0 < x \<Longrightarrow> atan2 x x = pi / 4"
  by (simp add: atan2_def arctan_one)

lemma angles_y_frame:
  "deconstruct_single_qubit_matrix_into_angles y_frame = (pi / 2, pi / 4, 0)"
proof -
  let ?r = "complex_of_real (sqrt 2 / 2)"
  have rr: "?r * ?r = 1 / 2"
    by (simp add: complex_eq_iff)
  have p1: "phase (m01 y_frame * cnj (m00 y_frame)) = - (pi / 2)"
    by (simp add: y_frame_def phase_def atan2_def)
  define mat1 where "mat1 = dot y_frame (phase_matrix (- (- (pi / 2) + pi)))"
  have mat1: "mat1 = Mat2 ?r (- ?r) ?r ?r"
    by (simp add: mat1_def y_frame_def dot_def phase_matrix_cis complex_eq_iff)
  have p2: "phase (m10 mat1 * cnj (m00 mat1)) = 0"
    by (simp add: mat1 phase_def atan2_def)
  define mat2 where "mat2 = dot (phase_matrix (- 0)) mat1"
  have mat2: "mat2 = mat1"
    by (simp add: mat2_def dot_def phase_matrix_cis)
  have rot: "atan2 (cmod (m10 mat2)) (cmod (m00 mat2)) = pi / 4"
    by (simp add: mat2 mat1 atan2_diag)
  define mat3 where "mat3 = dot (rotation_matrix (- (pi / 4))) mat2"
  have mat3: "mat3 = Mat2 1 0 0 1"
    by (simp add: mat3_def mat2 mat1 rotation_matrix_def dot_def cos_45 sin_45 complex_eq_iff)
  have p3: "phase (m11 mat3 * cnj (m00 mat3)) = 0"
    by (simp add: mat3 phase_1)
  show ?thesis
    unfolding deconstruct_single_qubit_matrix_into_angles_def Let_def
    unfolding p1 mat1_def [symmetric] p2 mat2_def [symmetric] rot mat3_def [symmetric] p3
    by simp
qed

lemma turns_y_frame:
  "deconstruct_single_qubit_matrix_into_gate_turns y_frame = (1 / 4, 0, 1 / 4)"
  by (simp add: turns_simps angles_y_frame)

lemma synth_y_frame:
  "0 \<le> tol \<Longrightarrow> tol < 1 / 4 \<Longrightarrow>
   single_qubit_matrix_to_native_gates sample_bound y_frame tol = [XYGate (1 / 4) 0, ZGate (1 / 4)]"
  by (simp add: single_qubit_unfold [OF turns_y_frame])

text \<open>
  C2. \<open>two_qubit_matrix_to_native_gates\<close> returns the flattened concatenation, in order,
  of: the synthesis of \<open>b1\<close> on \<open>q1\<close> then of \<open>b0\<close> on \<open>q0\<close>; the x parity interaction
  framed by \<open>Y**-0.5\<close>; the y parity interaction framed by \<open>X**0.5\<close>; the z parity
  interaction with no framing; the synthesis of \<open>a1\<close> on \<open>q1\<close> then of \<open>a0\<close> on \<open>q0\<close>,
  the parity interaction being the one the specification words.
\<close>

theorem two_qubit_sequence:
  assumes "kak mat tolerance = (g, (a1, a0), (x, y, z), (b1, b0))"
  shows "two_qubit_matrix_to_native_gates tdb kak q0 q1 mat tolerance
    = spec_synthesis_on tdb tolerance b1 q1 @ spec_synthesis_on tdb tolerance b0 q0
      @ spec_parity_interaction q0 q1 tolerance x (Some (GatePow ops_Y (- 0.5)))
      @ spec_parity_interaction q0 q1 tolerance y (Some (GatePow ops_X 0.5))
      @ spec_parity_interaction q0 q1 tolerance z None
      @ spec_synthesis_on tdb tolerance a1 q1 @ spec_synthesis_on tdb tolerance a0 q0"
  using assms
  by (simp add: two_qubit_matrix_to_native_gates_def Let_def flatten_do_single_on
      flatten_parity_interaction)

theorem two_qubit_sequence_witness:
  "kak_returning (1, (identity2, identity2), (pi / 4, 0, 0), (identity2, pauli_x)) () (1 / 10 ^ 8)
     = (1, (identity2, identity2), (pi / 4, 0, 0), (identity2, pauli_x))
   \<and> two_qubit_matrix_to_native_gates sample_bound
        (kak_returning (1, (identity2, identity2), (pi / 4, 0, 0), (identity2, pauli_x)))
        (0 :: nat) 1 () (1 / 10 ^ 8)
     = [Operation (XYGate (1 / 2) (- (1 / 2))) [0],
        Operation (GatePow ops_Y (- 0.5)) [0], Operation (GatePow ops_Y (- 0.5)) [1],
        Operation (GatePow ops_CZ 1) [0, 1],
        Operation (GatePow ops_Z (- (1 / 2))) [0], Operation (GatePow ops_Z (- (1 / 2))) [1],
        Operation (Inverse (GatePow ops_Y (- 0.5))) [0],
        Operation (Inverse (GatePow ops_Y (- 0.5))) [1]]"
  using two_qubit_sequence [where kak = "kak_returning (1, (identity2, identity2), (pi / 4, 0, 0), (identity2, pauli_x))"
      and mat = "()" and tolerance = "1 / 10 ^ 8" and tdb = sample_bound and ?q0.0 = "0 :: nat" and ?q1.0 = 1,
      OF kak_returning_def] pi_ge_two
  by (simp add: kak_returning_def spec_synthesis_on_def spec_parity_interaction_def
      synth_identity_small synth_pauli_x_small)

text \<open>
  C3. When \<open>|z_phase - 1| > tolerance\<close>, \<open>controlled_op_to_native_gates\<close> returns: the
  border gates for \<open>u\<close> on the target, a trailing \<open>ZGate\<close> dropped; then \<open>CZ\<close> to the power
  \<open>phase(z_phase) / pi\<close> on (control, target); then, only when
  \<open>|global_phase - 1| > tolerance\<close>, \<open>Z\<close> to the power \<open>phase(global_phase) / pi\<close> on the
  control; then the inverses of the border operations in reverse order.
\<close>

theorem controlled_op_sequence:
  assumes "eig operation = ((v0, v1), vecs)" and "v0 \<noteq> 0"
    and "u = hermitian_conj vecs" and "z_phase = v1 / v0" and "global_phase = v0"
    and "cmod (z_phase - 1) > tolerance"
    and "u_gates = single_qubit_matrix_to_native_gates tdb u tolerance"
    and "border = (if u_gates \<noteq> [] \<and> is_ZGate (last u_gates) then butlast u_gates else u_gates)"
  shows "controlled_op_to_native_gates tdb eig control target operation tolerance
    = Inr (map (\<lambda>g. Operation g [target]) border
           @ [Operation (GatePow ops_CZ (phase z_phase / pi)) [control, target]]
           @ (if cmod (global_phase - 1) > tolerance
              then [Operation (GatePow ops_Z (phase global_phase / pi)) [control]] else [])
           @ rev (map (\<lambda>g. Operation (Inverse g) [target]) border))"
  using assms(2-)
  by (simp add: controlled_op_to_native_gates_def framed_unfold [of eig operation, OF assms(1)]
      drop_commuting_border_eq Let_def flatten_leaves inverse_leaves flatten_four flatten_leaf
      flatten_empty
      del: flatten_op_tree.simps inverse_of_invertable_op_tree.simps)

theorem controlled_op_sequence_witness:
  "eig_returning ((1, - 1), y_eigenvectors) pauli_y = ((1, - 1), y_eigenvectors)
   \<and> (1 :: complex) \<noteq> 0
   \<and> cmod (- 1 / 1 - 1) > 1 / 10 ^ 8
   \<and> single_qubit_matrix_to_native_gates sample_bound (hermitian_conj y_eigenvectors) (1 / 10 ^ 8)
        = [XYGate (1 / 4) 0, ZGate (1 / 4)]
   \<and> controlled_op_to_native_gates sample_bound (eig_returning ((1, - 1), y_eigenvectors))
        (0 :: nat) 1 pauli_y (1 / 10 ^ 8)
      = Inr [Operation (XYGate (1 / 4) 0) [1],
             Operation (GatePow ops_CZ 1) [0, 1],
             Operation (Inverse (XYGate (1 / 4) 0)) [1]]"
  using controlled_op_sequence [where eig = "eig_returning ((1, - 1), y_eigenvectors)"
      and operation = pauli_y and ?v0.0 = 1 and ?v1.0 = "- 1" and vecs = y_eigenvectors
      and tdb = sample_bound and tolerance = "1 / 10 ^ 8" and control = "0 :: nat" and target = 1,
      OF eig_returning_def _ refl refl refl _ refl refl]
  by (simp add: eig_returning_def y_frame_eq synth_y_frame phase_m1)

text \<open>
  C10. On a run that reaches the synthesis of \<open>u\<close> (the identity test did not return)
  and gets the empty list from it: indexing the list would raise, the trailing-\<open>ZGate\<close>
  check is skipped without indexing, no error is raised, and the result is the coupling
  gate followed, when \<open>|global_phase - 1| > tolerance\<close>, by the kickback on the control.
\<close>

theorem controlled_op_all_border_elided:
  assumes "eig operation = ((v0, v1), vecs)" and "v0 \<noteq> 0"
    and "cmod (v1 / v0 - 1) > tolerance"
    and "single_qubit_matrix_to_native_gates tdb (hermitian_conj vecs) tolerance = []"
  shows "index_last (single_qubit_matrix_to_native_gates tdb (hermitian_conj vecs) tolerance)
           = Inl IndexError
       \<and> drop_commuting_border
           (single_qubit_matrix_to_native_gates tdb (hermitian_conj vecs) tolerance) = Inr []
       \<and> controlled_op_to_native_gates tdb eig control target operation tolerance
           = Inr ([Operation (GatePow ops_CZ (phase (v1 / v0) / pi)) [control, target]]
                  @ (if cmod (v0 - 1) > tolerance
                     then [Operation (GatePow ops_Z (phase v0 / pi)) [control]] else []))"
  using assms(2-)
  by (simp add: controlled_op_to_native_gates_def framed_unfold [of eig operation, OF assms(1)]
      drop_commuting_border_def index_last_def Let_def)

theorem controlled_op_all_border_elided_witness:
  "eig_returning ((\<i>, 1), identity2) (Mat2 \<i> 0 0 1) = ((\<i>, 1), identity2)
   \<and> \<i> \<noteq> 0
   \<and> cmod (1 / \<i> - 1) > 0
   \<and> single_qubit_matrix_to_native_gates sample_bound (hermitian_conj identity2) 0 = []
   \<and> controlled_op_to_native_gates sample_bound (eig_returning ((\<i>, 1), identity2))
        (0 :: nat) 1 (Mat2 \<i> 0 0 1) 0
      = Inr [Operation (GatePow ops_CZ (- (1 / 2))) [0, 1],
             Operation (GatePow ops_Z (1 / 2)) [0]]"
proof -
  have h: "hermitian_conj identity2 = identity2"
    by (simp add: hermitian_conj_def identity2_def)
  have c: "- \<i> \<noteq> 1" "\<i> \<noteq> 1"
    by (simp_all add: complex_eq_iff)
  show ?thesis
    using controlled_op_all_border_elided [where eig = "eig_returning ((\<i>, 1), identity2)"
        and operation = "Mat2 \<i> 0 0 1" and ?v0.0 = \<i> and ?v1.0 = 1 and vecs = identity2
        and tdb = sample_bound and tolerance = 0 and control = "0 :: nat" and target = 1,
        OF eig_returning_def]
    by (simp add: eig_returning_def h c synth_identity_small phase_mi phase_i)
qed

section \<open>The synthesised gates reconstruct the matrix\<close>

lemma sqrt_one_plus_ratio:
  fixes x y :: real
  assumes "x \<noteq> 0"
  shows "sqrt (1 + (y / x)\<^sup>2) = sqrt (x\<^sup>2 + y\<^sup>2) / \<bar>x\<bar>"
proof -
  have "1 + (y / x)\<^sup>2 = (x\<^sup>2 + y\<^sup>2) / x\<^sup>2"
    using assms by (simp add: power_divide add_divide_distrib)
  then show ?thesis
    by (simp add: real_sqrt_divide)
qed

lemma cos_atan2:
  assumes "x \<noteq> 0 \<or> y \<noteq> 0"
  shows "cos (atan2 y x) = x / sqrt (x\<^sup>2 + y\<^sup>2)"
proof -
  consider "0 < x" | "x < 0" | "x = 0" "0 < y" | "x = 0" "y < 0"
    using assms by linarith
  then show ?thesis
  proof cases
    case 1
    then show ?thesis
      by (simp add: atan2_def cos_arctan sqrt_one_plus_ratio)
  next
    case 2
    then show ?thesis
      by (simp add: atan2_def cos_arctan sqrt_one_plus_ratio)
  next
    case 3
    then show ?thesis by (simp add: atan2_def)
  next
    case 4
    then show ?thesis by (simp add: atan2_def)
  qed
qed

lemma sin_atan2:
  assumes "x \<noteq> 0 \<or> y \<noteq> 0"
  shows "sin (atan2 y x) = y / sqrt (x\<^sup>2 + y\<^sup>2)"
proof -
  consider "0 < x" | "x < 0" | "x = 0" "0 < y" | "x = 0" "y < 0"
    using assms by linarith
  then show ?thesis
  proof cases
    case 1
    then show ?thesis
      by (simp add: atan2_def sin_arctan sqrt_one_plus_ratio)
  next
    case 2
    then show ?thesis
      by (simp add: atan2_def sin_arctan sqrt_one_plus_ratio)
  next
    case 3
    then show ?thesis by (simp add: atan2_def)
  next
    case 4
    then show ?thesis by (simp add: atan2_def)
  qed
qed

lemma cis_phase: "complex_of_real (cmod z) * cis (phase z) = z"
proof (cases "z = 0")
  case True
  then show ?thesis by simp
next
  case False
  then have nz: "Re z \<noteq> 0 \<or> Im z \<noteq> 0"
    by (auto simp: complex_eq_iff)
  have pos: "sqrt ((Re z)\<^sup>2 + (Im z)\<^sup>2) \<noteq> 0"
    using nz by (auto simp: sum_power2_eq_zero_iff)
  show ?thesis
    using pos
    by (simp add: complex_eq_iff phase_def cos_atan2 [OF nz] sin_atan2 [OF nz] cmod_def)
qed


lemma dot_assoc: "dot (dot a b) c = dot a (dot b c)"
  by (simp add: dot_def algebra_simps)

lemma dot_identity_left: "dot identity2 a = a"
  by (simp add: dot_def identity2_def)

lemma dot_identity_right: "dot a identity2 = a"
  by (simp add: dot_def identity2_def)

lemma dot_scale_left: "dot (scale k a) b = scale k (dot a b)"
  by (simp add: dot_def scale_def algebra_simps)

lemma dot_scale_right: "dot a (scale k b) = scale k (dot a b)"
  by (simp add: dot_def scale_def algebra_simps)

lemma scale_scale: "scale k (scale l a) = scale (k * l) a"
  by (simp add: scale_def algebra_simps)

lemma scale_one: "scale 1 a = a"
  by (simp add: scale_def)

lemma hermitian_conj_dot: "hermitian_conj (dot a b) = dot (hermitian_conj b) (hermitian_conj a)"
  by (simp add: dot_def hermitian_conj_def algebra_simps)

lemma phase_matrix_add: "dot (phase_matrix x) (phase_matrix y) = phase_matrix (x + y)"
  by (simp add: phase_matrix_cis dot_def cis_mult)

lemma phase_matrix_zero: "phase_matrix 0 = identity2"
  by (simp add: phase_matrix_cis identity2_def)

lemma rotation_matrix_eq:
  "rotation_matrix x = Mat2 (complex_of_real (cos x)) (- complex_of_real (sin x))
                            (complex_of_real (sin x)) (complex_of_real (cos x))"
  by (simp add: rotation_matrix_def Let_def)

lemma rotation_matrix_add: "dot (rotation_matrix x) (rotation_matrix y) = rotation_matrix (x + y)"
  by (simp add: rotation_matrix_eq dot_def cos_add sin_add algebra_simps)

lemma rotation_matrix_zero: "rotation_matrix 0 = identity2"
  by (simp add: rotation_matrix_eq identity2_def)

lemma hermitian_conj_phase_matrix: "hermitian_conj (phase_matrix x) = phase_matrix (- x)"
  by (simp add: phase_matrix_cis hermitian_conj_def cis_cnj)

lemma hermitian_conj_rotation_matrix: "hermitian_conj (rotation_matrix x) = rotation_matrix (- x)"
  by (simp add: rotation_matrix_eq hermitian_conj_def)

lemma is_unitary_phase_matrix: "is_unitary (phase_matrix x)"
  by (simp add: is_unitary_def hermitian_conj_phase_matrix phase_matrix_add phase_matrix_zero)

lemma is_unitary_rotation_matrix: "is_unitary (rotation_matrix x)"
  by (simp add: is_unitary_def hermitian_conj_rotation_matrix rotation_matrix_add
      rotation_matrix_zero)

lemma is_unitary_dot:
  assumes "is_unitary a" and "is_unitary b"
  shows "is_unitary (dot a b)"
proof -
  have "dot (dot a b) (dot (hermitian_conj b) (hermitian_conj a))
          = dot a (dot (dot b (hermitian_conj b)) (hermitian_conj a))"
    by (simp add: dot_assoc)
  moreover have "dot (dot (hermitian_conj b) (hermitian_conj a)) (dot a b)
          = dot (hermitian_conj b) (dot (dot (hermitian_conj a) a) b)"
    by (simp add: dot_assoc)
  ultimately show ?thesis
    using assms by (simp add: is_unitary_def hermitian_conj_dot dot_identity_left)
qed

lemma unitary_column_norm:
  assumes "is_unitary a"
  shows "(cmod (m00 a))\<^sup>2 + (cmod (m10 a))\<^sup>2 = 1"
proof -
  have "dot (hermitian_conj a) a = identity2"
    using assms by (simp add: is_unitary_def)
  then have "cnj (m00 a) * m00 a + cnj (m10 a) * m10 a = 1"
    by (simp add: dot_def hermitian_conj_def identity2_def)
  then have "Re (cnj (m00 a) * m00 a + cnj (m10 a) * m10 a) = 1"
    by simp
  then show ?thesis
    unfolding cmod_power2 by (simp add: power2_eq_square)
qed

lemma unitary_upper_triangular:
  assumes "is_unitary a" and "m10 a = 0"
  shows "m01 a = 0 \<and> cmod (m00 a) = 1 \<and> cmod (m11 a) = 1"
proof -
  have eq: "dot a (hermitian_conj a) = identity2"
    using assms by (simp add: is_unitary_def)
  have d: "m11 a * cnj (m11 a) = 1"
    using eq assms(2) by (simp add: dot_def hermitian_conj_def identity2_def)
  then have n11: "cmod (m11 a) = 1"
    by (metis complex_mod_mult_cnj norm_one power2_eq_1_iff norm_ge_zero power2_eq_square
        abs_norm_cancel abs_1 real_sqrt_abs)
  have "m00 a * cnj (m10 a) + m01 a * cnj (m11 a) = 0"
    using eq by (simp add: dot_def hermitian_conj_def identity2_def)
  then have "m01 a * cnj (m11 a) = 0"
    using assms(2) by simp
  then have z: "m01 a = 0"
    using d by auto
  have "m00 a * cnj (m00 a) + m01 a * cnj (m01 a) = 1"
    using eq by (simp add: dot_def hermitian_conj_def identity2_def)
  then have "m00 a * cnj (m00 a) = 1"
    using z by simp
  then have "cmod (m00 a) = 1"
    by (metis complex_mod_mult_cnj norm_one power2_eq_1_iff norm_ge_zero power2_eq_square
        abs_norm_cancel abs_1 real_sqrt_abs)
  with z n11 show ?thesis by simp
qed


lemma rotation_matrix_cancel: "dot (rotation_matrix x) (dot (rotation_matrix (- x)) a) = a"
  by (simp add: dot_assoc [symmetric] rotation_matrix_add rotation_matrix_zero dot_identity_left)

lemma phase_matrix_cancel: "dot (phase_matrix x) (dot (phase_matrix (- x)) a) = a"
  by (simp add: dot_assoc [symmetric] phase_matrix_add phase_matrix_zero dot_identity_left)

lemma times_cnj_cmod: "z * cnj z = complex_of_real (cmod z * cmod z)"
  using complex_norm_square [of z] by (simp add: power2_eq_square)

lemma unit_times_cnj: "cmod g = 1 \<Longrightarrow> g * cnj g = 1"
  by (simp add: times_cnj_cmod)

lemma angles_reconstruct:
  assumes U: "is_unitary M"
    and ang: "deconstruct_single_qubit_matrix_into_angles M = (pre, rot, post)"
  shows "\<exists>g. cmod g = 1 \<and>
           M = scale g (dot (phase_matrix post) (dot (rotation_matrix rot) (phase_matrix pre)))"
proof -
  define right where "right = phase (m01 M * cnj (m00 M)) + pi"
  define mat1 where "mat1 = dot M (phase_matrix (- right))"
  define bottom where "bottom = phase (m10 mat1 * cnj (m00 mat1))"
  define mat2' where "mat2' = dot (phase_matrix (- bottom)) mat1"
  define rotation where "rotation = atan2 (cmod (m10 mat2')) (cmod (m00 mat2'))"
  define mat3 where "mat3 = dot (rotation_matrix (- rotation)) mat2'"
  define diag where "diag = phase (m11 mat3 * cnj (m00 mat3))"
  have "deconstruct_single_qubit_matrix_into_angles M = (right + diag, rotation, bottom)"
    unfolding deconstruct_single_qubit_matrix_into_angles_def Let_def diag_def mat3_def
      rotation_def mat2'_def bottom_def mat1_def right_def
    by (rule refl)
  with ang have res: "pre = right + diag" "rot = rotation" "post = bottom"
    by simp_all
  have e: "m00 mat1 = m00 M" "m10 mat1 = m10 M"
    by (simp_all add: mat1_def dot_def phase_matrix_cis)
  have f: "m00 mat2' = m00 M" "m10 mat2' = cis (- bottom) * m10 M"
    by (simp_all add: mat2'_def dot_def phase_matrix_cis e)
  let ?A = "cmod (m00 M)"
  let ?C = "cmod (m10 M)"
  have nrm: "?A\<^sup>2 + ?C\<^sup>2 = 1"
    by (rule unitary_column_norm [OF U])
  have rotation: "rotation = atan2 ?C ?A"
    by (simp add: rotation_def f norm_mult)
  have nz: "?A \<noteq> 0 \<or> ?C \<noteq> 0"
    using nrm by auto
  have cs: "cos rotation = ?A" "sin rotation = ?C"
    using cos_atan2 [OF nz] sin_atan2 [OF nz] nrm by (simp_all add: rotation)
  have bottom: "bottom = phase (m10 M * cnj (m00 M))"
    by (simp add: bottom_def e)
  have align: "cis (- bottom) * m10 M * cnj (m00 M) = complex_of_real (?C * ?A)"
  proof -
    have "complex_of_real (cmod (m10 M * cnj (m00 M))) * cis bottom = m10 M * cnj (m00 M)"
      unfolding bottom by (rule cis_phase)
    then have "cis (- bottom) * (m10 M * cnj (m00 M))
                 = cis (- bottom) * (complex_of_real (cmod (m10 M * cnj (m00 M))) * cis bottom)"
      by simp
    also have "\<dots> = complex_of_real (cmod (m10 M * cnj (m00 M))) * (cis (- bottom) * cis bottom)"
      by (simp only: mult.assoc mult.left_commute)
    also have "\<dots> = complex_of_real (?C * ?A)"
      by (simp add: cis_mult norm_mult)
    finally show ?thesis
      by (simp add: mult.assoc)
  qed
  have m10_3_eq: "m10 mat3 = - complex_of_real ?C * m00 M + complex_of_real ?A * (cis (- bottom) * m10 M)"
    by (simp add: mat3_def dot_def rotation_matrix_eq f cs)
  have m10_3: "m10 mat3 = 0"
  proof (cases "m00 M = 0")
    case True
    then show ?thesis by (simp add: m10_3_eq)
  next
    case False
    have "m10 mat3 * cnj (m00 M)
            = - complex_of_real ?C * (m00 M * cnj (m00 M))
              + complex_of_real ?A * (cis (- bottom) * m10 M * cnj (m00 M))"
      by (simp add: m10_3_eq algebra_simps)
    also have "\<dots> = 0"
      by (simp add: align times_cnj_cmod)
    finally show ?thesis
      using False by simp
  qed
  have U3: "is_unitary mat3"
    by (simp add: mat3_def mat2'_def mat1_def is_unitary_dot U is_unitary_phase_matrix
        is_unitary_rotation_matrix)
  from unitary_upper_triangular [OF U3 m10_3]
  have t: "m01 mat3 = 0" "cmod (m00 mat3) = 1" "cmod (m11 mat3) = 1"
    by simp_all
  define g where "g = m00 mat3"
  have g1: "cmod g = 1"
    by (simp add: g_def t)
  have "complex_of_real (cmod (m11 mat3 * cnj g)) * cis diag = m11 mat3 * cnj g"
    unfolding diag_def g_def by (rule cis_phase)
  then have cd: "cis diag = m11 mat3 * cnj g"
    by (simp add: norm_mult t g1)
  have "g * cis diag = m11 mat3 * (g * cnj g)"
    by (simp add: cd)
  then have m11: "m11 mat3 = g * cis diag"
    by (simp add: unit_times_cnj [OF g1])
  have mat3_eq: "mat3 = scale g (phase_matrix diag)"
    by (rule mat2.expand) (simp add: scale_def phase_matrix_cis t m10_3 m11 g_def [symmetric])
  have "dot (phase_matrix bottom) (dot (rotation_matrix rotation) (dot mat3 (phase_matrix right)))
          = M"
    by (simp add: mat3_def mat2'_def mat1_def dot_assoc rotation_matrix_cancel phase_matrix_cancel
        phase_matrix_add phase_matrix_zero dot_identity_right)
  then have "M = scale g (dot (phase_matrix bottom)
                  (dot (rotation_matrix rotation) (phase_matrix (diag + right))))"
    by (simp add: mat3_eq dot_scale_left dot_scale_right phase_matrix_add)
  then show ?thesis
    using g1 by (auto simp: res add.commute)
qed


lemma signed_mod_1_shift: "signed_mod_1 x = x - of_int \<lfloor>x + 1 / 2\<rfloor>"
  by (simp add: signed_mod_1_def float_mod_def)

lemma cis_signed_mod_1: "cis (2 * pi * signed_mod_1 x) = cis (2 * pi * x)"
proof -
  have "2 * pi * signed_mod_1 x = 2 * pi * x - 2 * pi * of_int \<lfloor>x + 1 / 2\<rfloor>"
    by (simp add: signed_mod_1_shift algebra_simps)
  then show ?thesis
    by (simp add: complex_eq_iff cos_diff sin_diff)
qed

lemma trig_signed_mod_1:
  "\<exists>s. (s = 1 \<or> s = - 1) \<and> cos (pi * signed_mod_1 x) = s * cos (pi * x)
        \<and> sin (pi * signed_mod_1 x) = s * sin (pi * x)"
proof -
  define k where "k = \<lfloor>x + 1 / 2\<rfloor>"
  have eq: "pi * signed_mod_1 x = pi * x - pi * of_int k"
    by (simp add: signed_mod_1_shift k_def algebra_simps)
  show ?thesis
  proof (cases "even k")
    case True
    then have "cos (pi * signed_mod_1 x) = 1 * cos (pi * x)"
      "sin (pi * signed_mod_1 x) = 1 * sin (pi * x)"
      by (simp_all add: eq cos_diff sin_diff)
    then show ?thesis by blast
  next
    case False
    then have "cos (pi * signed_mod_1 x) = - 1 * cos (pi * x)"
      "sin (pi * signed_mod_1 x) = - 1 * sin (pi * x)"
      by (simp_all add: eq cos_diff sin_diff)
    then show ?thesis by blast
  qed
qed

lemma imaginary_unit_products:
  "- \<i> * r * (- \<i> * w) = - (r * w)" "- \<i> * r * (\<i> * w) = r * w"
  by (simp_all add: complex_eq_iff algebra_simps)

lemma gates_reconstruct:
  assumes "deconstruct_single_qubit_matrix_into_angles M = (pre, rot, post)"
    and "deconstruct_single_qubit_matrix_into_gate_turns M = (t, a, z)"
  shows "\<exists>s. (s = 1 \<or> s = - 1) \<and>
           dot (phase_matrix (2 * pi * z)) (xy_gate_matrix t a)
             = scale (complex_of_real s)
                 (dot (phase_matrix post) (dot (rotation_matrix rot) (phase_matrix pre)))"
proof -
  have t: "t = signed_mod_1 (rot / pi)" and a: "a = signed_mod_1 (1 / 4 - pre / (2 * pi))"
    and z: "z = signed_mod_1 ((post + pre) / (2 * pi))"
    using assms by (simp_all add: deconstruct_single_qubit_matrix_into_gate_turns_def Let_def)
  obtain s where s: "s = 1 \<or> s = - 1" "cos (pi * t) = s * cos rot" "sin (pi * t) = s * sin rot"
    using trig_signed_mod_1 [of "rot / pi"] by (auto simp: t)
  have h: "2 * pi * (1 / 4 - pre / (2 * pi)) = pi / 2 + (- pre)"
    by (simp add: algebra_simps)
  have "cis (2 * pi * a) = cis (2 * pi * (1 / 4 - pre / (2 * pi)))"
    by (simp only: a cis_signed_mod_1)
  also have "\<dots> = cis (pi / 2) * cis (- pre)"
    by (simp only: h cis_mult)
  finally have ca: "cis (2 * pi * a) = \<i> * cis (- pre)"
    by simp
  have ca': "cis (- (2 * pi * a)) = - \<i> * cis pre"
    using arg_cong [OF ca, of cnj] by (simp add: cis_cnj)
  have cz: "cis (2 * pi * z) = cis post * cis pre"
    by (simp add: z cis_signed_mod_1 cis_mult)
  have xy: "xy_gate_matrix t a
              = Mat2 (complex_of_real (s * cos rot))
                     (- (complex_of_real (s * sin rot) * cis pre))
                     (complex_of_real (s * sin rot) * cis (- pre))
                     (complex_of_real (s * cos rot))"
    unfolding xy_gate_matrix_def s(2,3) ca ca' imaginary_unit_products by (rule refl)
  have pz: "phase_matrix (2 * pi * z) = Mat2 1 0 0 (cis post * cis pre)"
    unfolding phase_matrix_cis cz by (rule refl)
  have inv: "cis pre * cis (- pre) = 1"
    by (simp add: cis_mult)
  have "dot (phase_matrix (2 * pi * z)) (xy_gate_matrix t a)
          = scale (complex_of_real s)
              (dot (phase_matrix post) (dot (rotation_matrix rot) (phase_matrix pre)))"
    unfolding xy pz
    by (simp add: dot_def scale_def phase_matrix_cis rotation_matrix_eq inv mult.assoc
        mult.left_commute [of "cis pre"])
  with s(1) show ?thesis by blast
qed


lemma eqp_refl: "equal_up_to_global_phase a a"
  unfolding equal_up_to_global_phase_def
  by (rule exI [of _ 1]) (simp add: scale_one)

lemma eqp_scale: "cmod k = 1 \<Longrightarrow> equal_up_to_global_phase (scale k a) a"
  unfolding equal_up_to_global_phase_def by blast

lemma eqp_trans:
  assumes "equal_up_to_global_phase a b" and "equal_up_to_global_phase b c"
  shows "equal_up_to_global_phase a c"
proof -
  obtain k l where "cmod k = 1" "a = scale k b" "cmod l = 1" "b = scale l c"
    using assms unfolding equal_up_to_global_phase_def by blast
  then have "cmod (k * l) = 1 \<and> a = scale (k * l) c"
    by (simp add: scale_scale norm_mult)
  then show ?thesis
    unfolding equal_up_to_global_phase_def by blast
qed

lemma eqp_sym:
  assumes "equal_up_to_global_phase a b"
  shows "equal_up_to_global_phase b a"
proof -
  obtain k where k: "cmod k = 1" "a = scale k b"
    using assms unfolding equal_up_to_global_phase_def by blast
  have "scale (cnj k) a = scale (cnj k * k) b"
    by (simp add: k(2) scale_scale)
  also have "\<dots> = b"
    using unit_times_cnj [OF k(1)] by (simp add: mult.commute scale_one)
  finally have "cmod (cnj k) = 1 \<and> b = scale (cnj k) a"
    using k(1) by simp
  then show ?thesis
    unfolding equal_up_to_global_phase_def by blast
qed

lemma eqp_dot:
  assumes "equal_up_to_global_phase a a'" and "equal_up_to_global_phase b b'"
  shows "equal_up_to_global_phase (dot a b) (dot a' b')"
proof -
  obtain k l where "cmod k = 1" "a = scale k a'" "cmod l = 1" "b = scale l b'"
    using assms unfolding equal_up_to_global_phase_def by blast
  then have "cmod (k * l) = 1 \<and> dot a b = scale (k * l) (dot a' b')"
    by (simp add: dot_scale_left dot_scale_right scale_scale norm_mult mult.commute)
  then show ?thesis
    unfolding equal_up_to_global_phase_def by blast
qed

lemma half_turn_absorbs_phase:
  "xy_gate_matrix (1 / 2) (a + z / 2)
     = scale (- cis (- (pi * z))) (dot (phase_matrix (2 * pi * z)) (xy_gate_matrix (- (1 / 2)) a))"
proof -
  have e1: "cis (- (2 * pi * (a + z / 2))) = cis (- (pi * z)) * cis (- (2 * pi * a))"
    by (simp add: cis_mult algebra_simps)
  have e2: "cis (2 * pi * (a + z / 2)) = cis (- (pi * z)) * (cis (2 * pi * z) * cis (2 * pi * a))"
    by (simp add: cis_mult algebra_simps)
  show ?thesis
    unfolding xy_gate_matrix_def e1 e2
    by (simp add: dot_def scale_def phase_matrix_cis)
qed

lemma synthesis_product:
  assumes U: "is_unitary M"
    and turns: "deconstruct_single_qubit_matrix_into_gate_turns M = (t, a, z)"
  shows "equal_up_to_global_phase (dot (phase_matrix (2 * pi * z)) (xy_gate_matrix t a)) M"
proof -
  obtain pre rot post where ang: "deconstruct_single_qubit_matrix_into_angles M = (pre, rot, post)"
    by (metis prod_cases3)
  let ?prp = "dot (phase_matrix post) (dot (rotation_matrix rot) (phase_matrix pre))"
  obtain g where g: "cmod g = 1" "M = scale g ?prp"
    using angles_reconstruct [OF U ang] by blast
  obtain s where s: "s = 1 \<or> s = - 1"
    "dot (phase_matrix (2 * pi * z)) (xy_gate_matrix t a) = scale (complex_of_real s) ?prp"
    using gates_reconstruct [OF ang turns] by blast
  have "cmod (complex_of_real s) = 1"
    using s(1) by auto
  then have "equal_up_to_global_phase (dot (phase_matrix (2 * pi * z)) (xy_gate_matrix t a)) ?prp"
    unfolding s(2) by (rule eqp_scale)
  moreover have "equal_up_to_global_phase ?prp M"
    using eqp_sym [OF eqp_scale [OF g(1), of ?prp]] g(2) by simp
  ultimately show ?thesis
    by (rule eqp_trans)
qed


lemma xy_gate_matrix_zero: "xy_gate_matrix 0 a = identity2"
  by (simp add: xy_gate_matrix_def identity2_def)

lemma sample_bound_sound: "bound_is_sound sample_bound"
  unfolding bound_is_sound_def
proof (intro allI impI)
  fix g m
  assume h: "sample_bound g \<le> 0 \<and> gate_matrix g = Some m"
  then have "m = identity2"
    by (cases g) (auto simp: xy_gate_matrix_zero phase_matrix_zero)
  then show "equal_up_to_global_phase m identity2"
    by (simp add: eqp_refl)
qed

lemma is_unitary_pauli_x: "is_unitary pauli_x"
  by (simp add: is_unitary_def pauli_x_def hermitian_conj_def dot_def identity2_def)

lemma xy_half_turn_minus_half: "xy_gate_matrix (1 / 2) (- (1 / 2)) = scale \<i> pauli_x"
  by (simp add: xy_gate_matrix_def scale_def pauli_x_def cis_minus_pi)

text \<open>
  C1. For every 2x2 unitary matrix, \<open>single_qubit_matrix_to_native_gates\<close> with tolerance
  \<open>0\<close> returns a gate sequence whose matrix product, the gates applied in order, equals the
  matrix up to a global phase of magnitude one (in exact arithmetic, for a sound bound).
\<close>

theorem single_qubit_synthesis_reconstructs:
  assumes U: "is_unitary mat" and sound: "bound_is_sound tdb"
  shows "\<exists>p. sequence_matrix (single_qubit_matrix_to_native_gates tdb mat 0) = Some p
             \<and> equal_up_to_global_phase p mat"
proof -
  obtain t a z where turns: "deconstruct_single_qubit_matrix_into_gate_turns mat = (t, a, z)"
    by (metis prod_cases3)
  let ?xy = "xy_gate_matrix t a"
  let ?zm = "phase_matrix (2 * pi * z)"
  have prod: "equal_up_to_global_phase (dot ?zm ?xy) mat"
    by (rule synthesis_product [OF U turns])
  have dropped: "equal_up_to_global_phase identity2 m"
    if "tdb g \<le> 0" and "gate_matrix g = Some m" for g m
  proof -
    have "equal_up_to_global_phase m identity2"
      using sound that unfolding bound_is_sound_def by blast
    then show ?thesis
      by (rule eqp_sym)
  qed
  have dropxy: "tdb (XYGate t a) \<le> 0 \<Longrightarrow> equal_up_to_global_phase identity2 ?xy"
    by (rule dropped [of "XYGate t a"]) simp_all
  have dropz: "tdb (ZGate z) \<le> 0 \<Longrightarrow> equal_up_to_global_phase identity2 ?zm"
    by (rule dropped [of "ZGate z"]) simp_all
  have range: "- (1 / 2) \<le> t" "t < 1 / 2"
    using gate_turns_range [OF turns] by simp_all
  consider (absorb) "0 < tdb (XYGate t a)" "0 < tdb (ZGate z)" "1 / 2 \<le> \<bar>t\<bar>"
    | (both) "0 < tdb (XYGate t a)" "0 < tdb (ZGate z)" "\<not> 1 / 2 \<le> \<bar>t\<bar>"
    | (xy) "0 < tdb (XYGate t a)" "tdb (ZGate z) \<le> 0"
    | (z) "tdb (XYGate t a) \<le> 0" "0 < tdb (ZGate z)"
    | (none) "tdb (XYGate t a) \<le> 0" "tdb (ZGate z) \<le> 0"
    by linarith
  then show ?thesis
  proof cases
    case absorb
    then have t: "t = - (1 / 2)"
      using range by linarith
    have res: "single_qubit_matrix_to_native_gates tdb mat 0 = [XYGate (1 / 2) (a + z / 2)]"
      using absorb by (simp add: single_qubit_unfold [OF turns])
    have "equal_up_to_global_phase (xy_gate_matrix (1 / 2) (a + z / 2)) (dot ?zm ?xy)"
      unfolding half_turn_absorbs_phase t by (rule eqp_scale) simp
    then have "equal_up_to_global_phase (xy_gate_matrix (1 / 2) (a + z / 2)) mat"
      using prod by (rule eqp_trans)
    then show ?thesis
      by (simp add: res dot_identity_left)
  next
    case both
    then have res: "single_qubit_matrix_to_native_gates tdb mat 0 = [XYGate t a, ZGate z]"
      by (simp add: single_qubit_unfold [OF turns])
    show ?thesis
      using prod by (simp add: res dot_identity_left)
  next
    case xy
    then have res: "single_qubit_matrix_to_native_gates tdb mat 0 = [XYGate t a]"
      by (simp add: single_qubit_unfold [OF turns])
    have "equal_up_to_global_phase (dot identity2 ?xy) (dot ?zm ?xy)"
      by (rule eqp_dot [OF dropz [OF xy(2)] eqp_refl])
    then have "equal_up_to_global_phase ?xy mat"
      using prod by (simp add: dot_identity_left) (rule eqp_trans)
    then show ?thesis
      by (simp add: res dot_identity_left)
  next
    case z
    then have res: "single_qubit_matrix_to_native_gates tdb mat 0 = [ZGate z]"
      by (simp add: single_qubit_unfold [OF turns])
    have "equal_up_to_global_phase (dot ?zm identity2) (dot ?zm ?xy)"
      by (rule eqp_dot [OF eqp_refl dropxy [OF z(1)]])
    then have "equal_up_to_global_phase ?zm mat"
      using prod by (simp add: dot_identity_right) (rule eqp_trans)
    then show ?thesis
      by (simp add: res dot_identity_left)
  next
    case none
    then have res: "single_qubit_matrix_to_native_gates tdb mat 0 = []"
      by (simp add: single_qubit_unfold [OF turns])
    have "equal_up_to_global_phase (dot identity2 identity2) (dot ?zm ?xy)"
      by (rule eqp_dot [OF dropz [OF none(2)] dropxy [OF none(1)]])
    then have "equal_up_to_global_phase identity2 mat"
      using prod by (simp add: dot_identity_left) (rule eqp_trans)
    then show ?thesis
      by (simp add: res)
  qed
qed

theorem single_qubit_synthesis_reconstructs_witness:
  "is_unitary pauli_x \<and> bound_is_sound sample_bound
   \<and> sequence_matrix (single_qubit_matrix_to_native_gates sample_bound pauli_x 0)
        = Some (scale \<i> pauli_x)
   \<and> equal_up_to_global_phase (scale \<i> pauli_x) pauli_x"
  using single_qubit_synthesis_reconstructs [OF is_unitary_pauli_x sample_bound_sound]
  by (simp add: is_unitary_pauli_x sample_bound_sound single_qubit_unfold [OF turns_pauli_x]
      xy_half_turn_minus_half dot_identity_left eqp_scale)

text \<open>
  The sign/mod-1 convention is sound for the modelled matrices: equivalent parameters
  give the same matrix up to a global phase (a sign).
\<close>

lemma trig_shift_int:
  "\<exists>s. (s = 1 \<or> s = - 1) \<and> cos (x + pi * of_int k) = s * cos x
        \<and> sin (x + pi * of_int k) = s * sin x"
proof (cases "even k")
  case True
  then have "cos (x + pi * of_int k) = 1 * cos x" "sin (x + pi * of_int k) = 1 * sin x"
    by (simp_all add: cos_add sin_add)
  then show ?thesis by blast
next
  case False
  then have "cos (x + pi * of_int k) = - 1 * cos x" "sin (x + pi * of_int k) = - 1 * sin x"
    by (simp_all add: cos_add sin_add)
  then show ?thesis by blast
qed

lemma signed_mod_1_zero:
  assumes "signed_mod_1 x = 0"
  shows "\<exists>k :: int. x = of_int k"
  using assms by (auto simp: signed_mod_1_shift intro: exI [of _ "\<lfloor>x + 1 / 2\<rfloor>"])

lemma cis_shift_int: "cis (x + 2 * pi * of_int l) = cis x"
  by (simp add: complex_eq_iff cos_add sin_add)

lemma xy_matrix_shift:
  assumes "t' = t + of_int k" and "a' = a + of_int l"
  shows "equal_up_to_global_phase (xy_gate_matrix t' a') (xy_gate_matrix t a)"
proof -
  obtain s where s: "s = 1 \<or> s = - 1" "cos (pi * t + pi * of_int k) = s * cos (pi * t)"
    "sin (pi * t + pi * of_int k) = s * sin (pi * t)"
    using trig_shift_int [of "pi * t" k] by blast
  have c1: "cis (2 * pi * a') = cis (2 * pi * a)"
    using cis_shift_int [of "2 * pi * a" l] by (simp add: assms algebra_simps)
  have c2: "cis (- (2 * pi * a')) = cis (- (2 * pi * a))"
    using arg_cong [OF c1, of cnj] by (simp add: cis_cnj)
  have arg: "pi * t' = pi * t + pi * of_int k"
    by (simp add: assms(1) algebra_simps)
  have cs: "cos (pi * t') = s * cos (pi * t)" "sin (pi * t') = s * sin (pi * t)"
    using s(2,3) by (simp_all add: arg)
  have "xy_gate_matrix t' a' = scale (complex_of_real s) (xy_gate_matrix t a)"
    unfolding xy_gate_matrix_def c1 c2 cs
    by (simp add: scale_def)
  moreover have "cmod (complex_of_real s) = 1"
    using s(1) by auto
  ultimately show ?thesis
    using eqp_scale by simp
qed

lemma xy_matrix_flip:
  assumes "t' = - t + of_int k" and "a' = a + 1 / 2 + of_int l"
  shows "equal_up_to_global_phase (xy_gate_matrix t' a') (xy_gate_matrix t a)"
proof -
  obtain s where s: "s = 1 \<or> s = - 1" "cos (- (pi * t) + pi * of_int k) = s * cos (- (pi * t))"
    "sin (- (pi * t) + pi * of_int k) = s * sin (- (pi * t))"
    using trig_shift_int [of "- (pi * t)" k] by blast
  have arg: "pi * t' = - (pi * t) + pi * of_int k"
    by (simp add: assms(1) algebra_simps)
  have cs: "cos (pi * t') = s * cos (pi * t)" "sin (pi * t') = - (s * sin (pi * t))"
    using s(2,3) by (simp_all add: arg)
  have "cis (2 * pi * a') = cis (2 * pi * a + pi + 2 * pi * of_int l)"
    by (simp add: assms algebra_simps)
  also have "\<dots> = cis (2 * pi * a + pi)"
    by (rule cis_shift_int)
  also have "\<dots> = - cis (2 * pi * a)"
    by (simp add: cis_mult [symmetric])
  finally have c1: "cis (2 * pi * a') = - cis (2 * pi * a)" .
  have c2: "cis (- (2 * pi * a')) = - cis (- (2 * pi * a))"
    using arg_cong [OF c1, of cnj] by (simp add: cis_cnj)
  have "xy_gate_matrix t' a' = scale (complex_of_real s) (xy_gate_matrix t a)"
    unfolding xy_gate_matrix_def c1 c2 cs
    by (simp add: scale_def)
  moreover have "cmod (complex_of_real s) = 1"
    using s(1) by auto
  ultimately show ?thesis
    using eqp_scale by simp
qed

lemma xy_params_equivalent_matrix:
  assumes "xy_params_equivalent t a t' a'"
  shows "equal_up_to_global_phase (xy_gate_matrix t' a') (xy_gate_matrix t a)"
proof -
  from assms consider "signed_mod_1 (t' - t) = 0" "signed_mod_1 (a' - a) = 0"
    | "signed_mod_1 (t' + t) = 0" "signed_mod_1 (a' - a - 1 / 2) = 0"
    unfolding xy_params_equivalent_def by blast
  then show ?thesis
  proof cases
    case 1
    then obtain k l :: int where "t' - t = of_int k" "a' - a = of_int l"
      using signed_mod_1_zero by blast
    then have "t' = t + of_int k" "a' = a + of_int l"
      by simp_all
    then show ?thesis
      by (rule xy_matrix_shift)
  next
    case 2
    then obtain k l :: int where "t' + t = of_int k" "a' - a - 1 / 2 = of_int l"
      using signed_mod_1_zero by blast
    then have "t' = - t + of_int k" "a' = a + 1 / 2 + of_int l"
      by simp_all
    then show ?thesis
      by (rule xy_matrix_flip)
  qed
qed

text \<open>
  C8. On \<open>[[0, 1], [1, 0]]\<close> with tolerance \<open>1e-8\<close> (both candidate gates, half turns,
  exceeding the tolerance) the result is the single gate \<open>XYGate(turns=0.5,
  axis_phase_turns=-0.5)\<close>; its parameters are those of \<open>turns = 0.5\<close>,
  \<open>axis_phase_turns = 0\<close> under the sign/mod-1 convention, the two gates have the same
  matrix up to a global phase, and the matrix of the result is \<open>i\<close> times the input: the
  input up to a global phase.
\<close>

theorem bit_flip_synthesis:
  assumes "tdb (XYGate (- (1 / 2)) (- (1 / 4))) > 1 / 10 ^ 8"
    and "tdb (ZGate (- (1 / 2))) > 1 / 10 ^ 8"
  shows "single_qubit_matrix_to_native_gates tdb pauli_x (1 / 10 ^ 8) = [XYGate 0.5 (- 0.5)]
       \<and> xy_params_equivalent 0.5 (- 0.5) 0.5 0
       \<and> equal_up_to_global_phase (xy_gate_matrix 0.5 0) (xy_gate_matrix 0.5 (- 0.5))
       \<and> sequence_matrix (single_qubit_matrix_to_native_gates tdb pauli_x (1 / 10 ^ 8))
           = Some (scale \<i> pauli_x)
       \<and> equal_up_to_global_phase (scale \<i> pauli_x) pauli_x"
proof -
  have res: "single_qubit_matrix_to_native_gates tdb pauli_x (1 / 10 ^ 8) = [XYGate 0.5 (- 0.5)]"
    using assms by (simp add: single_qubit_unfold [OF turns_pauli_x])
  have eq: "xy_params_equivalent 0.5 (- 0.5) 0.5 0"
    by (simp add: xy_params_equivalent_def signed_mod_1_def float_mod_def)
  have m: "sequence_matrix [XYGate 0.5 (- 0.5)] = Some (scale \<i> pauli_x)"
    using xy_half_turn_minus_half by (simp add: dot_identity_left)
  show ?thesis
    using eq xy_params_equivalent_matrix [OF eq]
    by (simp only: res m eqp_scale [of \<i> pauli_x] norm_ii simp_thms)
qed

theorem bit_flip_synthesis_witness:
  "sample_bound (XYGate (- (1 / 2)) (- (1 / 4))) > 1 / 10 ^ 8
   \<and> sample_bound (ZGate (- (1 / 2))) > 1 / 10 ^ 8
   \<and> single_qubit_matrix_to_native_gates sample_bound pauli_x (1 / 10 ^ 8) = [XYGate 0.5 (- 0.5)]"
  using bit_flip_synthesis [of sample_bound] by simp

end
